theory Spec2Isabelle
  imports Main "HOL-Library.Word"
begin

section \<open>ABI32_0_0RNBranchProperty.m: the property descriptor\<close>

text \<open>
  A selector (\<open>SEL\<close>) is a uniqued method name, so \<open>==\<close> on selectors is equality
  of names; \<open>None\<close> is the NULL selector. A \<open>Class\<close> is a pointer to the unique
  class object, compared with \<open>==\<close>; \<open>None\<close> is \<open>Nil\<close>.
  An instance lives at an address of the heap (\<open>addr\<close>): that is its identity.
\<close>

type_synonym SEL = "string option"
type_synonym Class = "string option"

record RNBranchProperty =
  addr :: nat
  setterSelector :: SEL
  type :: Class

text \<open>
  What an \<open>id\<close> can point to: nothing (\<open>nil\<close>), an instance of
  \<open>ABI32_0_0RNBranchProperty\<close>, or an instance of a class that is not a kind of it
  (its address and class name). The class has no subclass in the sources, so
  \<open>self.class\<close> is \<open>ABI32_0_0RNBranchProperty\<close> for every receiver.
\<close>

datatype objc_id = nil | PropertyInstance RNBranchProperty | OtherInstance nat string

datatype objc_exception = ThrownNil

text \<open>\<open>+alloc\<close>: a fresh instance at the next free address, its ivars zeroed.\<close>

definition alloc :: "nat \<Rightarrow> RNBranchProperty \<times> nat" where
  "alloc next_free =
     (\<lparr>addr = next_free, setterSelector = None, type = None\<rparr>, Suc next_free)"

text \<open>\<open>[super init]\<close> is \<open>-[NSObject init]\<close>, which returns the receiver.\<close>

definition NSObject_init :: "RNBranchProperty \<Rightarrow> RNBranchProperty option" where
  "NSObject_init self = Some self"

text \<open>
  \<open>- (instancetype)initWithSetterSelector:(SEL)selector type:(Class)type\<close>:
  \<open>None\<close> is the \<open>nil\<close> the method returns when \<open>[super init]\<close> gave \<open>nil\<close>.
\<close>

definition initWithSetterSelector ::
  "RNBranchProperty \<Rightarrow> SEL \<Rightarrow> Class \<Rightarrow> RNBranchProperty option" where
  "initWithSetterSelector receiver selector ty =
     (case NSObject_init receiver of
        Some self \<Rightarrow> Some (self\<lparr>setterSelector := selector, type := ty\<rparr>)
      | None \<Rightarrow> None)"

text \<open>\<open>+ (instancetype)propertyWithSetterSelector:(SEL)selector type:(Class)type\<close>\<close>

definition propertyWithSetterSelector ::
  "SEL \<Rightarrow> Class \<Rightarrow> nat \<Rightarrow> RNBranchProperty option \<times> nat" where
  "propertyWithSetterSelector selector ty next_free =
     (case alloc next_free of
        (obj, next_free') \<Rightarrow> (initWithSetterSelector obj selector ty, next_free'))"

text \<open>\<open>- (instancetype)init { @throw nil; }\<close>\<close>

definition init :: "RNBranchProperty \<Rightarrow> objc_exception + RNBranchProperty" where
  "init self = Inl ThrownNil"

text \<open>\<open>+new\<close> of NSObject is \<open>[[self alloc] init]\<close>.\<close>

definition new :: "nat \<Rightarrow> (objc_exception + RNBranchProperty) \<times> nat" where
  "new next_free = (case alloc next_free of (obj, next_free') \<Rightarrow> (init obj, next_free'))"

text \<open>
  \<open>- (BOOL)isEqual:(id)object\<close>: \<open>[object isKindOfClass:self.class]\<close> is \<open>NO\<close> for
  \<open>nil\<close> (a message to \<open>nil\<close>) and for an instance of another class.
\<close>

fun isKindOfClass_RNBranchProperty :: "objc_id \<Rightarrow> bool" where
  "isKindOfClass_RNBranchProperty (PropertyInstance p) = True"
| "isKindOfClass_RNBranchProperty nil = False"
| "isKindOfClass_RNBranchProperty (OtherInstance a c) = False"

fun isEqual :: "RNBranchProperty \<Rightarrow> objc_id \<Rightarrow> bool" where
  "isEqual self object =
     (if \<not> isKindOfClass_RNBranchProperty object then False
      else (case object of
              PropertyInstance other \<Rightarrow>
                setterSelector self = setterSelector other \<and> type self = type other
            | _ \<Rightarrow> False))"

section \<open>PermissionsRequester.java\<close>

text \<open>
  A Java reference is an \<open>option\<close> (\<open>None\<close> is \<open>null\<close>). The module registry is
  not in the sources: \<open>getModule\<close> is taken as the registry itself, a lookup from an
  interface's class name to the module registered for it, \<open>null\<close> when there is none.
\<close>

datatype java_error = NullPointerException

type_synonym 'm ModuleRegistry = "string \<Rightarrow> 'm option"

definition PermissionsManager_class :: string where
  "PermissionsManager_class = ''org.unimodules.interfaces.permissions.PermissionsManager''"

definition PERMISSIONS_REQUEST :: "32 word" where
  "PERMISSIONS_REQUEST = 13"

record 'm PermissionsRequester =
  mPermissionManager :: "'m option"

text \<open>
  One call of \<open>PermissionsManager.requestPermissions(permissions, requestCode, listener)\<close>,
  as the manager receives it. The manager is an interface whose method declares no
  exception: the call is taken to return. What is observable of the requester is the
  sequence of these calls.
\<close>

record ('m, 'p, 'l) requestPermissions_call =
  manager :: 'm
  permissions :: 'p
  requestCode :: "32 word"
  listener :: 'l

definition PermissionsRequester_new ::
  "'m ModuleRegistry option \<Rightarrow> java_error + 'm PermissionsRequester" where
  "PermissionsRequester_new moduleRegistry =
     (case moduleRegistry of
        None \<Rightarrow> Inl NullPointerException
      | Some registry \<Rightarrow> Inr \<lparr>mPermissionManager = registry PermissionsManager_class\<rparr>)"

definition askForPermissions ::
  "'m PermissionsRequester \<Rightarrow> 'p \<Rightarrow> 'l \<Rightarrow> ('m, 'p, 'l) requestPermissions_call list
     \<Rightarrow> bool \<times> ('m, 'p, 'l) requestPermissions_call list" where
  "askForPermissions this perms lst calls =
     (case mPermissionManager this of
        Some m \<Rightarrow>
          (True, calls @ [\<lparr>manager = m, permissions = perms,
                           requestCode = PERMISSIONS_REQUEST, listener = lst\<rparr>])
      | None \<Rightarrow> (False, calls))"

section \<open>StyleSheet.js: compose\<close>

text \<open>
  JavaScript values as far as \<open>compose\<close> looks at them: the two nullish values,
  primitives (a number is the id of a registered style), and references to heap
  objects (identity is the address). The heap is the list of objects allocated so
  far; an array literal allocates at its end.
\<close>

datatype jsval =
  JSUndefined | JSNull | JSBool bool | JSNumber int | JSString string | JSRef nat

datatype jsobj = JSArray "jsval list" | JSObject "(string \<times> jsval) list"

text \<open>\<open>v != null\<close> (loose inequality): false for \<open>null\<close> and \<open>undefined\<close> only.\<close>

fun ne_null :: "jsval \<Rightarrow> bool" where
  "ne_null JSNull = False"
| "ne_null JSUndefined = False"
| "ne_null v = True"

definition compose :: "jsval \<Rightarrow> jsval \<Rightarrow> jsobj list \<Rightarrow> jsval \<times> jsobj list" where
  "compose style1 style2 heap =
     (if ne_null style1 \<and> ne_null style2
      then (JSRef (length heap), heap @ [JSArray [style1, style2]])
      else ((if ne_null style1 then style1 else style2), heap))"

section \<open>CollectionReference.ts\<close>

text \<open>
  \<open>Path\<close>, \<open>DocumentReference.set\<close> and \<open>firestoreAutoId\<close> are imported by the
  file and are not in the sources, so they are parameters, gathered in one record:
  \<open>child\<close> and \<open>isDocument\<close> of \<open>Path\<close>; \<open>firestoreAutoId\<close>, which draws an id
  from the world's randomness; \<open>documentSet\<close>, the outcome of \<open>documentRef.set(data)\<close>
  on the world. A call either throws, or returns a promise that is rejected or resolved.
\<close>

datatype 'e js_error = InvariantViolation string | NativeError 'e

datatype ('e, 'a) completion = Threw 'e | Rejected 'e | Resolved 'a

datatype ('f, 'p) DocumentReference = DocumentReference 'f 'p

record ('f, 'p) CollectionReference =
  collectionPath :: 'p
  firestore :: 'f
  query :: "'f \<times> 'p"

record ('f, 'p, 'd, 'w, 'e) firestore_env =
  child :: "'p \<Rightarrow> string \<Rightarrow> 'p"
  isDocument :: "'p \<Rightarrow> bool"
  firestoreAutoId :: "'w \<Rightarrow> string \<times> 'w"
  documentSet ::
    "('f, 'p) DocumentReference \<Rightarrow> 'd \<Rightarrow> 'w \<Rightarrow> ('e js_error, unit) completion \<times> 'w"

text \<open>\<open>constructor(firestore, collectionPath)\<close>; the query is \<open>new Query(firestore, collectionPath)\<close>.\<close>

definition CollectionReference_new :: "'f \<Rightarrow> 'p \<Rightarrow> ('f, 'p) CollectionReference" where
  "CollectionReference_new fs cp =
     \<lparr>collectionPath = cp, firestore = fs, query = (fs, cp)\<rparr>"

text \<open>
  \<open>doc(documentPath?: string)\<close>. The argument is \<open>None\<close> when it is left out
  (\<open>undefined\<close>); \<open>documentPath || firestoreAutoId()\<close> takes the generated id when
  the argument is falsy, that is left out or the empty string, and calls the generator
  only then. \<open>invariant\<close> throws when the child path is not a document path.
\<close>

definition doc ::
  "('f, 'p, 'd, 'w, 'e) firestore_env \<Rightarrow> ('f, 'p) CollectionReference \<Rightarrow> string option \<Rightarrow> 'w
     \<Rightarrow> ('e js_error + ('f, 'p) DocumentReference) \<times> 'w" where
  "doc env this documentPath w =
     (case (case documentPath of
              Some p \<Rightarrow> if p \<noteq> [] then (p, w) else firestoreAutoId env w
            | None \<Rightarrow> firestoreAutoId env w) of
        (newPath, w') \<Rightarrow>
          (let path = child env (collectionPath this) newPath in
           if isDocument env path
           then (Inr (DocumentReference (firestore this) path), w')
           else (Inl (InvariantViolation
                   ''Argument \"documentPath\" must point to a document.''), w')))"

text \<open>
  \<open>add(data)\<close>: \<open>this.doc()\<close>, then \<open>documentRef.set(data).then(() => Promise.resolve(documentRef))\<close>.
  The \<open>then\<close> has no rejection handler, so a rejection of \<open>set\<close> is the rejection of
  the result. The receiver is returned as the call leaves it.
\<close>

definition add ::
  "('f, 'p, 'd, 'w, 'e) firestore_env \<Rightarrow> ('f, 'p) CollectionReference \<Rightarrow> 'd \<Rightarrow> 'w
     \<Rightarrow> ('e js_error, ('f, 'p) DocumentReference) completion
        \<times> ('f, 'p) CollectionReference \<times> 'w" where
  "add env this data w =
     (case doc env this None w of
        (Inl e, w1) \<Rightarrow> (Threw e, this, w1)
      | (Inr documentRef, w1) \<Rightarrow>
          (case documentSet env documentRef data w1 of
             (Threw e, w2) \<Rightarrow> (Threw e, this, w2)
           | (Rejected e, w2) \<Rightarrow> (Rejected e, this, w2)
           | (Resolved u, w2) \<Rightarrow> (Resolved documentRef, this, w2)))"

section \<open>The versioned module registry\<close>

type_synonym VersionNamespace = string

record ModuleDescriptor =
  logicalName :: string
  versionNamespace :: VersionNamespace
  implementation :: nat
  capabilities :: "string list"

datatype registry_error = UnknownVersion | ModuleNotFound | DuplicateModule

type_synonym VersionedRegistry = "VersionNamespace \<times> string \<Rightarrow> ModuleDescriptor option"

text \<open>
  Modelled from the spec: the Module Registry of section 4.2, whose code is not in the
  sources (only a versioned module's header, \<open>ABI28_0_0RCTSettingsManager.h\<close>, is).
  A descriptor is looked up by its (namespace, name) pair.
  \<open>register(namespace, name, descriptor)\<close> fails with \<open>DuplicateModule\<close> if
  (namespace, name) is already registered.
\<close>

definition register ::
  "VersionNamespace \<Rightarrow> string \<Rightarrow> ModuleDescriptor \<Rightarrow> VersionedRegistry
     \<Rightarrow> (registry_error + unit) \<times> VersionedRegistry" where
  "register ns name descriptor reg =
     (case reg (ns, name) of
        Some registered \<Rightarrow> (Inl DuplicateModule, reg)
      | None \<Rightarrow> (Inr (), reg((ns, name) \<mapsto> descriptor)))"

text \<open>
  Modelled from the spec: \<open>resolve(namespace, name)\<close> of section 4.2, not in the
  sources; it fails with \<open>ModuleNotFound\<close> when absent.
\<close>

definition resolve ::
  "VersionedRegistry \<Rightarrow> VersionNamespace \<Rightarrow> string \<Rightarrow> registry_error + ModuleDescriptor" where
  "resolve reg ns name =
     (case reg (ns, name) of
        Some descriptor \<Rightarrow> Inr descriptor
      | None \<Rightarrow> Inl ModuleNotFound)"

text \<open>
  Modelled from the spec: the initialization phase of section 5, a sequence of
  \<open>register\<close> calls made before any dispatch; each call works on the registry the
  one before left. A failed call leaves the registry as it was, so where initialization
  halts at a failure the registry is that of the calls made so far.
\<close>

fun registrations ::
  "(VersionNamespace \<times> string \<times> ModuleDescriptor) list \<Rightarrow> VersionedRegistry
     \<Rightarrow> VersionedRegistry" where
  "registrations [] reg = reg"
| "registrations ((ns, name, descriptor) # calls) reg =
     registrations calls (snd (register ns name descriptor reg))"

section \<open>Applying a property descriptor\<close>

datatype apply_error = TypeMismatch | InvalidTarget

record ('s, 't) PropertyDescriptor =
  setter :: 's
  expectedType :: 't

text \<open>A target: the setters it exposes, and the field each setter writes.\<close>

record ('s, 'v) target =
  exposed :: "'s list"
  fieldValues :: "'s \<Rightarrow> 'v option"

text \<open>
  Modelled from the spec: \<open>apply(descriptor, target, value)\<close> of section 4.4; the
  code that applies an \<open>ABI32_0_0RNBranchProperty\<close> is not in the sources (its header
  \<open>ABI32_0_0BranchUniversalObject+RNBranch.h\<close> is only imported). It fails with
  \<open>TypeMismatch\<close> if the value's runtime type is incompatible with the descriptor's
  type, fails with \<open>InvalidTarget\<close> if the target does not expose the bound setter,
  and otherwise applies the value through the setter. The spec leaves the
  compatibility of a value with a type open: it is the parameter \<open>compatible\<close>.
\<close>

definition apply_descriptor ::
  "('v \<Rightarrow> 't \<Rightarrow> bool) \<Rightarrow> ('s, 't) PropertyDescriptor \<Rightarrow> ('s, 'v) target \<Rightarrow> 'v
     \<Rightarrow> (apply_error + unit) \<times> ('s, 'v) target" where
  "apply_descriptor compatible descriptor tgt v =
     (if \<not> compatible v (expectedType descriptor) then (Inl TypeMismatch, tgt)
      else if setter descriptor \<notin> set (exposed tgt) then (Inl InvalidTarget, tgt)
      else (Inr (), tgt\<lparr>fieldValues := (fieldValues tgt)(setter descriptor \<mapsto> v)\<rparr>))"

text \<open>
  Modelled from the spec: the values that cross the bridge (section 6: string, number,
  boolean, null, ordered list, string-keyed mapping) with their type tags, and the
  compatibility of section 9's tagged-variant validation, a value against the tag it
  carries. This is one instance of \<open>compatible\<close>, used to run \<open>apply_descriptor\<close>.
\<close>

datatype prim =
  PString string | PNumber int | PBool bool | PNull | PList "prim list"
  | PMap "(string \<times> prim) list"

datatype prim_type = TString | TNumber | TBool | TNull | TList | TMap

fun runtime_type :: "prim \<Rightarrow> prim_type" where
  "runtime_type (PString s) = TString"
| "runtime_type (PNumber n) = TNumber"
| "runtime_type (PBool b) = TBool"
| "runtime_type PNull = TNull"
| "runtime_type (PList xs) = TList"
| "runtime_type (PMap kvs) = TMap"

definition has_type :: "prim \<Rightarrow> prim_type \<Rightarrow> bool" where
  "has_type v t = (runtime_type v = t)"

section \<open>Two environments for CollectionReference\<close>

text \<open>
  A path is the list of its segments, a document path has an even number of them;
  the world is the list of the writes made. In the first environment every
  \<open>set\<close> is written and resolves; in the second the backend refuses every write.
\<close>

type_synonym example_world = "((string, string list) DocumentReference \<times> string) list"

definition accepting_env ::
  "(string, string list, string, example_world, string) firestore_env" where
  "accepting_env =
     \<lparr>child = (\<lambda>p s. p @ [s]),
      isDocument = (\<lambda>p. even (length p)),
      firestoreAutoId = (\<lambda>w. (''AbCdEfGhIjKlMnOpQrSt'', w)),
      documentSet = (\<lambda>r d w. (Resolved (), w @ [(r, d)]))\<rparr>"

definition rejecting_env ::
  "(string, string list, string, example_world, string) firestore_env" where
  "rejecting_env =
     \<lparr>child = (\<lambda>p s. p @ [s]),
      isDocument = (\<lambda>p. even (length p)),
      firestoreAutoId = (\<lambda>w. (''AbCdEfGhIjKlMnOpQrSt'', w)),
      documentSet = (\<lambda>r d w. (Rejected (NativeError ''firestore/permission-denied''), w))\<rparr>"

section \<open>Theorems\<close>

text \<open>
  C5. Equality of two property descriptors is decided by their (setter, type) pair and
  by nothing else: \<open>isEqual:\<close> answers YES exactly when the two setter selectors and
  the two types agree, whatever the addresses of the two instances, so two distinct
  instances built with the same selector and type compare equal. An argument that is
  not a property descriptor is never equal.
\<close>

theorem isEqual_by_setter_and_type:
  "isEqual p (PropertyInstance q)
     = ((setterSelector p, type p) = (setterSelector q, type q))
   \<and> isEqual (p\<lparr>addr := a\<rparr>) (PropertyInstance (q\<lparr>addr := b\<rparr>))
       = isEqual p (PropertyInstance q)
   \<and> \<not> isEqual p nil \<and> \<not> isEqual p (OtherInstance c n)"
  by simp

theorem isEqual_by_setter_and_type_witness:
  "fst (propertyWithSetterSelector (Some ''setTitle:'') (Some ''NSString'') 0)
     = Some \<lparr>addr = 0, setterSelector = Some ''setTitle:'', type = Some ''NSString''\<rparr>
   \<and> fst (propertyWithSetterSelector (Some ''setTitle:'') (Some ''NSString'') 1)
     = Some \<lparr>addr = 1, setterSelector = Some ''setTitle:'', type = Some ''NSString''\<rparr>
   \<and> isEqual \<lparr>addr = 0, setterSelector = Some ''setTitle:'', type = Some ''NSString''\<rparr>
        (PropertyInstance
          \<lparr>addr = 1, setterSelector = Some ''setTitle:'', type = Some ''NSString''\<rparr>)
   \<and> \<not> isEqual \<lparr>addr = 0, setterSelector = Some ''setTitle:'', type = Some ''NSString''\<rparr>
        (PropertyInstance
          \<lparr>addr = 1, setterSelector = Some ''setTitle:'', type = Some ''NSNumber''\<rparr>)"
  using isEqual_by_setter_and_type
    [of "\<lparr>addr = 0, setterSelector = Some ''setTitle:'', type = Some ''NSString''\<rparr>"
        "\<lparr>addr = 1, setterSelector = Some ''setTitle:'', type = Some ''NSString''\<rparr>"]
    isEqual_by_setter_and_type
    [of "\<lparr>addr = 0, setterSelector = Some ''setTitle:'', type = Some ''NSString''\<rparr>"
        "\<lparr>addr = 1, setterSelector = Some ''setTitle:'', type = Some ''NSNumber''\<rparr>"]
  by (simp add: propertyWithSetterSelector_def alloc_def initWithSetterSelector_def
      NSObject_init_def)

text \<open>
  C6. The default initializer never yields a descriptor: \<open>init\<close> throws on every
  receiver, and so does \<open>new\<close> (alloc, then init). Construction with a setter selector
  and a type succeeds, through the initializer and through the factory, and gives the
  descriptor bound to that selector and type.
\<close>

theorem init_throws_only_designated_succeeds:
  "init receiver = Inl ThrownNil
   \<and> (\<forall>p. init receiver \<noteq> Inr p)
   \<and> fst (new next_free) = Inl ThrownNil
   \<and> initWithSetterSelector receiver selector ty
       = Some (receiver\<lparr>setterSelector := selector, type := ty\<rparr>)
   \<and> propertyWithSetterSelector selector ty next_free
       = (Some \<lparr>addr = next_free, setterSelector = selector, type = ty\<rparr>, Suc next_free)"
  by (simp add: init_def new_def alloc_def initWithSetterSelector_def NSObject_init_def
      propertyWithSetterSelector_def)

theorem init_throws_only_designated_succeeds_witness:
  "init \<lparr>addr = 7, setterSelector = None, type = None\<rparr> = Inl ThrownNil
   \<and> fst (new 7) = Inl ThrownNil
   \<and> propertyWithSetterSelector (Some ''setTitle:'') (Some ''NSString'') 7
       = (Some \<lparr>addr = 7, setterSelector = Some ''setTitle:'', type = Some ''NSString''\<rparr>, 8)"
  using init_throws_only_designated_succeeds
    [of "\<lparr>addr = 7, setterSelector = None, type = None\<rparr>" 7
        "Some ''setTitle:''" "Some ''NSString''"]
  by simp

text \<open>
  C8. A requester built from a module registry that has no PermissionsManager answers
  \<open>false\<close> to \<open>askForPermissions\<close> and makes no call; a requester built from a
  registry that has one makes exactly one call of \<open>requestPermissions\<close> on that
  manager, with the permissions and the listener it was given and the request code 13,
  and answers \<open>true\<close>.
\<close>

theorem askForPermissions_forwards_or_refuses:
  assumes "PermissionsRequester_new (Some registry) = Inr this"
  shows "(registry PermissionsManager_class = None \<longrightarrow>
            askForPermissions this perms lst calls = (False, calls))
       \<and> (\<forall>m. registry PermissionsManager_class = Some m \<longrightarrow>
            askForPermissions this perms lst calls
              = (True, calls @ [\<lparr>manager = m, permissions = perms,
                                  requestCode = 13, listener = lst\<rparr>]))"
proof -
  from assms have this_eq: "this = \<lparr>mPermissionManager = registry PermissionsManager_class\<rparr>"
    by (simp add: PermissionsRequester_new_def)
  show ?thesis
    by (simp add: this_eq askForPermissions_def PERMISSIONS_REQUEST_def)
qed

theorem askForPermissions_forwards_or_refuses_witness:
  "PermissionsRequester_new (Some (\<lambda>c. None)) = Inr \<lparr>mPermissionManager = (None :: nat option)\<rparr>
   \<and> askForPermissions \<lparr>mPermissionManager = (None :: nat option)\<rparr>
        [''android.permission.CAMERA''] ''listener'' []
       = (False, [])
   \<and> PermissionsRequester_new
        (Some (\<lambda>c. if c = PermissionsManager_class then Some (5 :: nat) else None))
       = Inr \<lparr>mPermissionManager = Some 5\<rparr>
   \<and> askForPermissions \<lparr>mPermissionManager = Some (5 :: nat)\<rparr>
        [''android.permission.CAMERA''] ''listener'' []
       = (True, [\<lparr>manager = 5, permissions = [''android.permission.CAMERA''],
                   requestCode = 13, listener = ''listener''\<rparr>])"
proof -
  have none: "PermissionsRequester_new (Some (\<lambda>c. None))
                = Inr \<lparr>mPermissionManager = (None :: nat option)\<rparr>"
    by (simp add: PermissionsRequester_new_def)
  have some: "PermissionsRequester_new
                (Some (\<lambda>c. if c = PermissionsManager_class then Some (5 :: nat) else None))
                = Inr \<lparr>mPermissionManager = Some 5\<rparr>"
    by (simp add: PermissionsRequester_new_def)
  show ?thesis
    using none some
      askForPermissions_forwards_or_refuses
        [OF none, of "[''android.permission.CAMERA'']" "''listener''" "[]"]
      askForPermissions_forwards_or_refuses
        [OF some, of "[''android.permission.CAMERA'']" "''listener''" "[]"]
    by simp
qed

text \<open>
  C9. \<open>compose\<close> returns a newly allocated two-element array \<open>[style1, style2]\<close> when
  both styles are non-null; when exactly one is non-null it returns that operand itself
  and allocates nothing; when neither is, it returns \<open>style2\<close>, which is \<open>null\<close> or
  \<open>undefined\<close>, and allocates nothing. So the heap changes only when both operands
  are non-null, and an operand that comes back is the very value (the same reference)
  that went in.
\<close>

theorem compose_cases:
  "(ne_null style1 \<and> ne_null style2 \<longrightarrow>
      compose style1 style2 heap
        = (JSRef (length heap), heap @ [JSArray [style1, style2]]))
   \<and> (ne_null style1 \<and> \<not> ne_null style2 \<longrightarrow> compose style1 style2 heap = (style1, heap))
   \<and> (\<not> ne_null style1 \<and> ne_null style2 \<longrightarrow> compose style1 style2 heap = (style2, heap))
   \<and> (\<not> ne_null style1 \<and> \<not> ne_null style2 \<longrightarrow>
        compose style1 style2 heap = (style2, heap) \<and> style2 \<in> {JSNull, JSUndefined})
   \<and> (snd (compose style1 style2 heap) \<noteq> heap \<longrightarrow> ne_null style1 \<and> ne_null style2)"
proof -
  have nullish: "\<not> ne_null v \<Longrightarrow> v \<in> {JSNull, JSUndefined}" for v
    by (cases v) simp_all
  show ?thesis
    using nullish [of style2] by (simp add: compose_def)
qed

theorem compose_cases_witness:
  "compose (JSRef 0) (JSNumber 3) [JSObject []]
     = (JSRef 1, [JSObject [], JSArray [JSRef 0, JSNumber 3]])
   \<and> compose (JSBool False) (JSRef 0) [JSObject []]
     = (JSRef 1, [JSObject [], JSArray [JSBool False, JSRef 0]])
   \<and> compose (JSRef 0) JSUndefined [JSObject []] = (JSRef 0, [JSObject []])
   \<and> compose JSNull (JSRef 0) [JSObject []] = (JSRef 0, [JSObject []])
   \<and> compose JSUndefined JSNull [JSObject []] = (JSNull, [JSObject []])
   \<and> compose JSNull JSUndefined [JSObject []] = (JSUndefined, [JSObject []])"
  using compose_cases [of "JSRef 0" "JSNumber 3" "[JSObject []]"]
    compose_cases [of "JSBool False" "JSRef 0" "[JSObject []]"]
    compose_cases [of "JSRef 0" JSUndefined "[JSObject []]"]
    compose_cases [of JSNull "JSRef 0" "[JSObject []]"]
    compose_cases [of JSUndefined JSNull "[JSObject []]"]
    compose_cases [of JSNull JSUndefined "[JSObject []]"]
  by simp

text \<open>
  C10 (as amended). \<open>add(data)\<close> takes a document reference from \<open>doc()\<close> called
  with no argument, so for the child path of an auto-generated id, and performs
  \<open>set(data)\<close> on it. Provided that child path is a document path: when \<open>set\<close>
  resolves, \<open>add\<close> resolves with that same reference; when \<open>set\<close> rejects, \<open>add\<close>
  rejects with the same error and delivers no reference. The collection reference is
  as it was in both cases.
\<close>

theorem add_follows_set:
  assumes "firestoreAutoId env w = (newId, w1)"
    and "isDocument env (child env (collectionPath this) newId)"
  shows "doc env this None w
           = (Inr (DocumentReference (firestore this) (child env (collectionPath this) newId)), w1)
       \<and> (documentSet env
             (DocumentReference (firestore this) (child env (collectionPath this) newId)) data w1
             = (Resolved (), w2) \<longrightarrow>
           add env this data w
             = (Resolved (DocumentReference (firestore this)
                            (child env (collectionPath this) newId)), this, w2))
       \<and> (documentSet env
             (DocumentReference (firestore this) (child env (collectionPath this) newId)) data w1
             = (Rejected e, w2) \<longrightarrow>
           add env this data w = (Rejected e, this, w2))"
  using assms by (simp add: doc_def add_def)

theorem add_follows_set_witness:
  "add accepting_env (CollectionReference_new ''db'' [''users'']) ''{name: Ada}'' []
     = (Resolved (DocumentReference ''db'' [''users'', ''AbCdEfGhIjKlMnOpQrSt'']),
        CollectionReference_new ''db'' [''users''],
        [(DocumentReference ''db'' [''users'', ''AbCdEfGhIjKlMnOpQrSt''], ''{name: Ada}'')])"
proof -
  have gen: "firestoreAutoId accepting_env ([] :: example_world) = (''AbCdEfGhIjKlMnOpQrSt'', [])"
    by (simp add: accepting_env_def)
  have isdoc: "isDocument accepting_env
                 (child accepting_env
                    (collectionPath (CollectionReference_new ''db'' [''users'']))
                    ''AbCdEfGhIjKlMnOpQrSt'')"
    by (simp add: accepting_env_def CollectionReference_new_def)
  show ?thesis
    using add_follows_set [OF gen isdoc, of "''{name: Ada}''"
        "[(DocumentReference ''db'' [''users'', ''AbCdEfGhIjKlMnOpQrSt''], ''{name: Ada}'')]"]
    by (simp add: accepting_env_def CollectionReference_new_def)
qed

text \<open>
  C10 as stated fails where \<open>set\<close> rejects: the backend refuses the write, and
  \<open>add\<close> rejects instead of resolving with the document reference.
\<close>

theorem add_rejects_counterexample:
  "add rejecting_env (CollectionReference_new ''db'' [''users'']) ''{name: Ada}'' []
     = (Rejected (NativeError ''firestore/permission-denied''),
        CollectionReference_new ''db'' [''users''], [])"
  by (simp add: add_def doc_def rejecting_env_def CollectionReference_new_def)

subsection \<open>The versioned module registry\<close>

lemma registrations_lookup:
  "registrations calls reg (ns, name)
     = (case reg (ns, name) of
          Some d \<Rightarrow> Some d
        | None \<Rightarrow> map_option (\<lambda>(a, b, d). d) (find (\<lambda>(a, b, d). a = ns \<and> b = name) calls))"
proof (induction calls arbitrary: reg)
  case Nil
  then show ?case by (simp split: option.splits)
next
  case (Cons c calls)
  obtain a b d where c: "c = (a, b, d)" by (cases c)
  show ?case
    by (cases "reg (a, b)"; cases "reg (ns, name)")
       (auto simp: c Cons.IH register_def split: option.splits)
qed

lemma find_in_set: "find P xs = Some x \<Longrightarrow> x \<in> set xs \<and> P x"
  by (induction xs) (auto split: if_splits)

lemma find_filter_same:
  "find (\<lambda>(a, b, d). a = ns \<and> b = name) (filter (\<lambda>(a, b, d). a = ns) calls)
     = find (\<lambda>(a, b, d). a = ns \<and> b = name) calls"
  by (induction calls) auto

text \<open>
  C1. After any sequence of \<open>register\<close> calls on an empty registry, a lookup of
  (N1, name) returns only a descriptor that was registered under (N1, name); it fails
  with \<open>ModuleNotFound\<close> when nothing was registered under (N1, name), whatever other
  namespaces registered under that name; and its answer is the same as if the calls
  for every other namespace had never been made.
\<close>

theorem resolve_never_crosses_namespaces:
  "(\<forall>d. resolve (registrations calls Map.empty) N1 name = Inr d
          \<longrightarrow> (N1, name, d) \<in> set calls)
   \<and> ((\<forall>d. (N1, name, d) \<notin> set calls) \<longrightarrow>
        resolve (registrations calls Map.empty) N1 name = Inl ModuleNotFound)
   \<and> resolve (registrations calls Map.empty) N1 name
       = resolve (registrations (filter (\<lambda>(ns, n, d). ns = N1) calls) Map.empty) N1 name"
proof (intro conjI allI impI)
  fix d assume "resolve (registrations calls Map.empty) N1 name = Inr d"
  then have "find (\<lambda>(a, b, d). a = N1 \<and> b = name) calls \<noteq> None
      \<and> (\<lambda>(a, b, d). d) (the (find (\<lambda>(a, b, d). a = N1 \<and> b = name) calls)) = d"
    by (auto simp: resolve_def registrations_lookup split: option.splits)
  then obtain x where x: "find (\<lambda>(a, b, d). a = N1 \<and> b = name) calls = Some x"
    and xd: "(\<lambda>(a, b, d). d) x = d" by auto
  from find_in_set [OF x] xd show "(N1, name, d) \<in> set calls" by auto
next
  assume none: "\<forall>d. (N1, name, d) \<notin> set calls"
  have "find (\<lambda>(a, b, d). a = N1 \<and> b = name) calls = None"
  proof (cases "find (\<lambda>(a, b, d). a = N1 \<and> b = name) calls")
    case None then show ?thesis .
  next
    case (Some x)
    from find_in_set [OF Some] none show ?thesis by auto
  qed
  then show "resolve (registrations calls Map.empty) N1 name = Inl ModuleNotFound"
    by (simp add: resolve_def registrations_lookup)
next
  show "resolve (registrations calls Map.empty) N1 name
       = resolve (registrations (filter (\<lambda>(ns, n, d). ns = N1) calls) Map.empty) N1 name"
    by (simp only: resolve_def registrations_lookup find_filter_same)
qed

theorem resolve_never_crosses_namespaces_witness:
  "resolve
     (registrations
        [(''V1'', ''Settings'',
          \<lparr>logicalName = ''Settings'', versionNamespace = ''V1'', implementation = 1,
            capabilities = [''read'', ''write'']\<rparr>)] Map.empty)
     ''V2'' ''Settings'' = Inl ModuleNotFound
   \<and> resolve
     (registrations
        [(''V1'', ''Settings'',
          \<lparr>logicalName = ''Settings'', versionNamespace = ''V1'', implementation = 1,
            capabilities = [''read'', ''write'']\<rparr>)] Map.empty)
     ''V1'' ''Settings''
     = Inr \<lparr>logicalName = ''Settings'', versionNamespace = ''V1'', implementation = 1,
            capabilities = [''read'', ''write'']\<rparr>"
  using resolve_never_crosses_namespaces
    [of "[(''V1'', ''Settings'',
          \<lparr>logicalName = ''Settings'', versionNamespace = ''V1'', implementation = 1,
            capabilities = [''read'', ''write'']\<rparr>)]" "''V2''" "''Settings''"]
  by (simp add: resolve_def register_def)

text \<open>
  C3. In a registry where (namespace, name) is registered, \<open>register\<close> for that pair
  fails with \<open>DuplicateModule\<close>, leaves the registry as it was, and the pair still
  resolves to the descriptor registered first.
\<close>

theorem register_twice_fails_with_DuplicateModule:
  assumes "resolve reg ns name = Inr original"
  shows "register ns name descriptor reg = (Inl DuplicateModule, reg)
       \<and> resolve (snd (register ns name descriptor reg)) ns name = Inr original"
  using assms by (auto simp: register_def resolve_def split: option.splits)

theorem register_twice_fails_with_DuplicateModule_witness:
  "register ''V1'' ''Settings''
     \<lparr>logicalName = ''Settings'', versionNamespace = ''V1'', implementation = 1,
       capabilities = []\<rparr> Map.empty
     = (Inr (), [(''V1'', ''Settings'') \<mapsto>
          \<lparr>logicalName = ''Settings'', versionNamespace = ''V1'', implementation = 1,
            capabilities = []\<rparr>])
   \<and> fst (register ''V1'' ''Settings''
       \<lparr>logicalName = ''Settings'', versionNamespace = ''V1'', implementation = 2,
         capabilities = [''write'']\<rparr>
       [(''V1'', ''Settings'') \<mapsto>
          \<lparr>logicalName = ''Settings'', versionNamespace = ''V1'', implementation = 1,
            capabilities = []\<rparr>])
     = Inl DuplicateModule
   \<and> resolve (snd (register ''V1'' ''Settings''
       \<lparr>logicalName = ''Settings'', versionNamespace = ''V1'', implementation = 2,
         capabilities = [''write'']\<rparr>
       [(''V1'', ''Settings'') \<mapsto>
          \<lparr>logicalName = ''Settings'', versionNamespace = ''V1'', implementation = 1,
            capabilities = []\<rparr>])) ''V1'' ''Settings''
     = Inr \<lparr>logicalName = ''Settings'', versionNamespace = ''V1'', implementation = 1,
            capabilities = []\<rparr>"
proof -
  have registered:
    "resolve [(''V1'', ''Settings'') \<mapsto>
          \<lparr>logicalName = ''Settings'', versionNamespace = ''V1'', implementation = 1,
            capabilities = []\<rparr>] ''V1'' ''Settings''
       = Inr \<lparr>logicalName = ''Settings'', versionNamespace = ''V1'', implementation = 1,
              capabilities = []\<rparr>"
    by (simp add: resolve_def)
  have first: "register ''V1'' ''Settings''
     \<lparr>logicalName = ''Settings'', versionNamespace = ''V1'', implementation = 1,
       capabilities = []\<rparr> Map.empty
     = (Inr (), [(''V1'', ''Settings'') \<mapsto>
          \<lparr>logicalName = ''Settings'', versionNamespace = ''V1'', implementation = 1,
            capabilities = []\<rparr>])"
    by (simp add: register_def)
  show ?thesis
    using first registered
      register_twice_fails_with_DuplicateModule [OF registered,
        of "\<lparr>logicalName = ''Settings'', versionNamespace = ''V1'', implementation = 2,
             capabilities = [''write'']\<rparr>"]
    by simp
qed

text \<open>
  C4. For every descriptor, target and value whose runtime type is incompatible with
  the descriptor's type, \<open>apply\<close> returns \<open>TypeMismatch\<close> and the target it leaves is
  the target it was given: no field changes, also when the target does not expose
  the setter.
\<close>

theorem apply_wrong_type_is_TypeMismatch:
  assumes "\<not> compatible v (expectedType descriptor)"
  shows "apply_descriptor compatible descriptor tgt v = (Inl TypeMismatch, tgt)"
  using assms by (simp add: apply_descriptor_def)

theorem apply_wrong_type_is_TypeMismatch_witness:
  "\<not> has_type (PNumber 5) TString
   \<and> apply_descriptor has_type \<lparr>setter = ''setTitle:'', expectedType = TString\<rparr>
       \<lparr>exposed = [''setTitle:''], fieldValues = [''setTitle:'' \<mapsto> PString ''old'']\<rparr>
       (PNumber 5)
     = (Inl TypeMismatch,
        \<lparr>exposed = [''setTitle:''], fieldValues = [''setTitle:'' \<mapsto> PString ''old'']\<rparr>)"
proof -
  have wrong: "\<not> has_type (PNumber 5)
                  (expectedType \<lparr>setter = ''setTitle:'', expectedType = TString\<rparr>)"
    by (simp add: has_type_def)
  show ?thesis
    using wrong apply_wrong_type_is_TypeMismatch
        [of has_type "PNumber 5" "\<lparr>setter = ''setTitle:'', expectedType = TString\<rparr>"
            "\<lparr>exposed = [''setTitle:''], fieldValues = [''setTitle:'' \<mapsto> PString ''old'']\<rparr>"]
    by simp
qed

end
